theory Spec2Isabelle
  imports Main
begin

section \<open>Values of the Python program\<close>

text \<open>
  The relay of \<^verbatim>\<open>proxy_server.py\<close> is one request handler class with four methods:
  \<^verbatim>\<open>do_OPTIONS\<close>, \<^verbatim>\<open>do_POST\<close>, \<^verbatim>\<open>send_cors_headers\<close> and
  \<^verbatim>\<open>send_error_response\<close>. They are embedded below as functions on an explicit handler
  state. What the methods call in the standard library is modelled beside them: the
  operations whose behaviour the handler depends on case by case are written out
  (header lookup, \<^verbatim>\<open>int\<close>, \<^verbatim>\<open>rfile.read\<close>, subscripting, the UTF-8 codec,
  \<^verbatim>\<open>json.dumps\<close> on a dictionary of strings, the header buffer of the server class),
  and the two calls whose result the handler only passes on (\<^verbatim>\<open>json.loads\<close> and the
  outbound \<^verbatim>\<open>urlopen\<close>) are fields of a record \<open>world\<close> that every theorem
  quantifies over.

  A Python \<^verbatim>\<open>bytes\<close> object is a \<open>string\<close> (a list of 8-bit characters); a Python
  \<^verbatim>\<open>str\<close> is a list of code points.
\<close>

type_synonym bytes = string
type_synonym pystr = "nat list"

definition ascii :: "string \<Rightarrow> pystr" where
  \<comment> \<open>the \<^verbatim>\<open>str\<close> literal made of these ASCII characters\<close>
  "ascii s = map of_char s"

text \<open>
  The exceptions the handler can meet. \<open>URLError\<close> is the class the first
  \<^verbatim>\<open>except\<close> clause names; every other constructor is a subclass of
  \<^verbatim>\<open>Exception\<close> outside \<^verbatim>\<open>URLError\<close>. \<open>OtherException\<close> carries the text
  \<^verbatim>\<open>str(e)\<close> of any exception not listed.
\<close>

datatype exn =
    TypeError pystr
  | ValueError pystr
  | KeyError pystr
  | JSONDecodeError pystr nat nat nat
  | UnicodeDecodeError nat nat nat pystr
  | UnicodeEncodeError nat nat nat
  | URLError pystr
  | OtherException pystr

text \<open>Decimal and hexadecimal numerals, as \<^verbatim>\<open>%d\<close> and \<^verbatim>\<open>%x\<close> print them.\<close>

definition digit_char :: "nat \<Rightarrow> nat" where
  "digit_char d = (if d < 10 then 48 + d else 87 + d)"

fun show_nat :: "nat \<Rightarrow> pystr" where
  "show_nat n = (if n < 10 then [digit_char n] else show_nat (n div 10) @ [digit_char (n mod 10)])"

declare show_nat.simps [simp del]

definition hex2 :: "nat \<Rightarrow> pystr" where
  "hex2 n = [digit_char ((n div 16) mod 16), digit_char (n mod 16)]"

definition hex4 :: "nat \<Rightarrow> pystr" where
  "hex4 n = [digit_char ((n div 4096) mod 16), digit_char ((n div 256) mod 16),
             digit_char ((n div 16) mod 16), digit_char (n mod 16)]"

text \<open>
  \<^verbatim>\<open>repr\<close> of a \<^verbatim>\<open>str\<close> whose characters are Latin-1 (header values are decoded as
  Latin-1): single quotes, unless the text holds a single quote and no double quote;
  backslash, the chosen quote, tab, newline and carriage return are escaped, and a
  character that is not printable is written \<^verbatim>\<open>\xNN\<close>.
\<close>

definition printable :: "nat \<Rightarrow> bool" where
  "printable c = ((32 \<le> c \<and> c < 127) \<or> (161 \<le> c \<and> c < 256 \<and> c \<noteq> 173))"

definition repr_char :: "nat \<Rightarrow> nat \<Rightarrow> pystr" where
  "repr_char q c =
     (if c = q \<or> c = 92 then [92, c]
      else if c = 9 then [92, 116]
      else if c = 10 then [92, 110]
      else if c = 13 then [92, 114]
      else if printable c then [c]
      else [92, 120] @ hex2 c)"

definition py_repr :: "pystr \<Rightarrow> pystr" where
  "py_repr s =
     (let q = (if 39 \<in> set s \<and> 34 \<notin> set s then 34 else 39)
      in [q] @ concat (map (repr_char q) s) @ [q])"

text \<open>\<^verbatim>\<open>str(e)\<close>, the only thing the handler takes from an exception.\<close>

fun str_exn :: "exn \<Rightarrow> pystr" where
  "str_exn (TypeError m) = m"
| "str_exn (ValueError m) = m"
| "str_exn (KeyError k) = py_repr k"
| "str_exn (JSONDecodeError m lineno colno pos) =
     m @ ascii '': line '' @ show_nat lineno @ ascii '' column '' @ show_nat colno
       @ ascii '' (char '' @ show_nat pos @ ascii '')''"
| "str_exn (UnicodeDecodeError b start end reason) =
     (if end = start + 1
      then [39] @ ascii ''utf-8'' @ [39] @ ascii '' codec can'' @ [39] @ ascii ''t decode byte 0x'' @ hex2 b
           @ ascii '' in position '' @ show_nat start @ ascii '': '' @ reason
      else [39] @ ascii ''utf-8'' @ [39] @ ascii '' codec can'' @ [39]
           @ ascii ''t decode bytes in position '' @ show_nat start
           @ ascii ''-'' @ show_nat (end - 1) @ ascii '': '' @ reason)"
| "str_exn (UnicodeEncodeError c start end) =
     (if end = start + 1
      then [39] @ ascii ''utf-8'' @ [39] @ ascii '' codec can'' @ [39] @ ascii ''t encode character ''
           @ [39, 92, 117] @ hex4 c @ [39]
           @ ascii '' in position '' @ show_nat start @ ascii '': surrogates not allowed''
      else [39] @ ascii ''utf-8'' @ [39] @ ascii '' codec can'' @ [39]
           @ ascii ''t encode characters in position '' @ show_nat start
           @ ascii ''-'' @ show_nat (end - 1) @ ascii '': surrogates not allowed'')"
| "str_exn (URLError reason) = ascii ''<urlopen error '' @ reason @ ascii ''>''"
| "str_exn (OtherException m) = m"

fun is_URLError :: "exn \<Rightarrow> bool" where
  "is_URLError (URLError _) = True"
| "is_URLError _ = False"

section \<open>The library operations the handler calls\<close>

subsection \<open>\<^verbatim>\<open>int\<close> on a header value\<close>

text \<open>
  \<^verbatim>\<open>self.headers['Content-Length']\<close> is \<^verbatim>\<open>None\<close> when the header is absent (the
  message class answers a missing header with \<^verbatim>\<open>None\<close>, it does not raise). \<^verbatim>\<open>int\<close>
  raises \<^verbatim>\<open>TypeError\<close> on \<^verbatim>\<open>None\<close>. On a text it strips white space at both ends,
  takes one optional sign, and then wants decimal digits, where a single underscore may
  stand between two digits; anything else raises \<^verbatim>\<open>ValueError\<close>. The digits are the
  ASCII ones: a header value is Latin-1 text, which has no other decimal digit. The
  message texts are those of CPython 3.12.
\<close>

definition is_space :: "nat \<Rightarrow> bool" where
  "is_space c = ((9 \<le> c \<and> c \<le> 13) \<or> (28 \<le> c \<and> c \<le> 32) \<or> c = 133 \<or> c = 160 \<or> c = 5760
                 \<or> (8192 \<le> c \<and> c \<le> 8202) \<or> c = 8232 \<or> c = 8233 \<or> c = 8239
                 \<or> c = 8287 \<or> c = 12288)"

definition strip :: "pystr \<Rightarrow> pystr" where
  "strip s = rev (dropWhile is_space (rev (dropWhile is_space s)))"

definition is_digit :: "nat \<Rightarrow> bool" where
  "is_digit c = (48 \<le> c \<and> c \<le> 57)"

fun digits_value :: "nat \<Rightarrow> pystr \<Rightarrow> nat option" where
  "digits_value acc [] = Some acc"
| "digits_value acc (c # cs) =
     (if is_digit c then digits_value (10 * acc + (c - 48)) cs
      else if c = 95 then
        (case cs of
           [] \<Rightarrow> None
         | d # _ \<Rightarrow> if is_digit d then digits_value acc cs else None)
      else None)"

definition parse_decimal :: "pystr \<Rightarrow> nat option" where
  "parse_decimal s =
     (case s of
        [] \<Rightarrow> None
      | c # _ \<Rightarrow> if is_digit c then digits_value 0 s else None)"

definition py_int :: "pystr option \<Rightarrow> exn + int" where
  "py_int x =
     (case x of
        None \<Rightarrow>
          Inl (TypeError (ascii ''int() argument must be a string, a bytes-like object or a real number, not ''
                          @ [39] @ ascii ''NoneType'' @ [39]))
      | Some s \<Rightarrow>
          (let t = strip s;
               neg = (case t of [] \<Rightarrow> False | c # _ \<Rightarrow> c = 45);
               d = (case t of [] \<Rightarrow> [] | c # cs \<Rightarrow> if c = 45 \<or> c = 43 then cs else t)
           in case parse_decimal d of
                None \<Rightarrow>
                  Inl (ValueError (ascii ''invalid literal for int() with base 10: ''
                                   @ take 200 (py_repr s)))
              | Some n \<Rightarrow> Inr (if neg then - int n else int n)))"

subsection \<open>\<^verbatim>\<open>rfile.read\<close>\<close>

text \<open>
  \<^verbatim>\<open>self.rfile\<close> is a buffered reader on the connection. The model holds the bytes the
  client still sends (\<open>pending\<close>) and whether the client closes its side after them
  (\<open>eof\<close>). \<^verbatim>\<open>read(n)\<close> with \<open>0 \<le> n\<close> returns \<open>n\<close> bytes, or what is left when the
  stream ends earlier; \<^verbatim>\<open>read(-1)\<close> returns everything up to the end of the stream;
  \<^verbatim>\<open>read(n)\<close> with \<open>n < -1\<close> raises \<^verbatim>\<open>ValueError\<close>. A read that wants more than the
  client sends on a connection that stays open never returns: that is the result
  \<open>None\<close>. The limits of the platform (index size, memory) are outside the model.
\<close>

record rfile =
  pending :: bytes
  eof :: bool

definition rfile_read :: "int \<Rightarrow> rfile \<Rightarrow> (exn + bytes \<times> rfile) option" where
  "rfile_read n f =
     (if n < - 1 then Some (Inl (ValueError (ascii ''read length must be non-negative or -1'')))
      else if 0 \<le> n \<and> nat n \<le> length (pending f)
        then Some (Inr (take (nat n) (pending f), f\<lparr>pending := drop (nat n) (pending f)\<rparr>))
      else if eof f then Some (Inr (pending f, f\<lparr>pending := []\<rparr>))
      else None)"

subsection \<open>JSON values and subscripting\<close>

text \<open>
  What \<^verbatim>\<open>json.loads\<close> returns: \<^verbatim>\<open>None\<close>, a \<^verbatim>\<open>bool\<close>, an \<^verbatim>\<open>int\<close>, a
  \<^verbatim>\<open>float\<close> (kept as its text: the handler never computes with one), a \<^verbatim>\<open>str\<close>, a
  \<^verbatim>\<open>list\<close> or a \<^verbatim>\<open>dict\<close> with \<^verbatim>\<open>str\<close> keys. \<open>getitem v k\<close> is \<^verbatim>\<open>v[k]\<close> for a
  \<^verbatim>\<open>str\<close> key \<open>k\<close>: only a dictionary that has the key answers.
\<close>

datatype json =
    JNull
  | JBool bool
  | JInt int
  | JFloat string
  | JStr pystr
  | JList "json list"
  | JDict "(pystr \<times> json) list"

definition not_subscriptable :: "string \<Rightarrow> exn" where
  "not_subscriptable cls = TypeError ([39] @ ascii cls @ [39] @ ascii '' object is not subscriptable'')"

fun getitem :: "json \<Rightarrow> pystr \<Rightarrow> exn + json" where
  "getitem (JDict kvs) k = (case map_of kvs k of None \<Rightarrow> Inl (KeyError k) | Some v \<Rightarrow> Inr v)"
| "getitem (JList _) k = Inl (TypeError (ascii ''list indices must be integers or slices, not str''))"
| "getitem (JStr _) k =
     Inl (TypeError (ascii ''string indices must be integers, not '' @ [39] @ ascii ''str'' @ [39]))"
| "getitem JNull k = Inl (not_subscriptable ''NoneType'')"
| "getitem (JBool _) k = Inl (not_subscriptable ''bool'')"
| "getitem (JInt _) k = Inl (not_subscriptable ''int'')"
| "getitem (JFloat _) k = Inl (not_subscriptable ''float'')"

subsection \<open>The UTF-8 codec\<close>

text \<open>
  \<^verbatim>\<open>bytes.decode('utf-8')\<close> with the default, strict error handling: the decoder of
  CPython, which reads a lead byte, checks the continuation bytes in order and raises
  at the first ill-formed sequence with \<open>invalid start byte\<close>, \<open>invalid
  continuation byte\<close> or \<open>unexpected end of data\<close>. Overlong forms, surrogates and
  code points above \<open>0x10FFFF\<close> are ill-formed. \<open>decode_from pos bs\<close> decodes the
  bytes \<open>bs\<close> that start at offset \<open>pos\<close> of the input.
\<close>

definition is_cont :: "nat \<Rightarrow> bool" where
  "is_cont b = (128 \<le> b \<and> b < 192)"

definition invalid_start :: "nat \<Rightarrow> nat \<Rightarrow> exn" where
  "invalid_start b pos = UnicodeDecodeError b pos (pos + 1) (ascii ''invalid start byte'')"

definition invalid_continuation :: "nat \<Rightarrow> nat \<Rightarrow> nat \<Rightarrow> exn" where
  "invalid_continuation b pos n = UnicodeDecodeError b pos (pos + n) (ascii ''invalid continuation byte'')"

definition unexpected_end :: "nat \<Rightarrow> nat \<Rightarrow> nat \<Rightarrow> exn" where
  "unexpected_end b pos n = UnicodeDecodeError b pos (pos + n) (ascii ''unexpected end of data'')"

definition prepend :: "nat \<Rightarrow> exn + pystr \<Rightarrow> exn + pystr" where
  "prepend c r = (case r of Inl e \<Rightarrow> Inl e | Inr t \<Rightarrow> Inr (c # t))"

fun decode_from :: "nat \<Rightarrow> nat list \<Rightarrow> exn + pystr" where
  "decode_from pos [] = Inr []"
| "decode_from pos (b # bs) =
     (if b < 128 then prepend b (decode_from (pos + 1) bs)
      else if b < 194 then Inl (invalid_start b pos)
      else if b < 224 then
        (case bs of
           [] \<Rightarrow> Inl (unexpected_end b pos 1)
         | c # r \<Rightarrow>
             if \<not> is_cont c then Inl (invalid_continuation b pos 1)
             else prepend ((b - 192) * 64 + (c - 128)) (decode_from (pos + 2) r))
      else if b < 240 then
        (case bs of
           [] \<Rightarrow> Inl (unexpected_end b pos 1)
         | c # r \<Rightarrow>
             if \<not> is_cont c \<or> (if c < 160 then b = 224 else b = 237)
             then Inl (invalid_continuation b pos 1)
             else
               (case r of
                  [] \<Rightarrow> Inl (unexpected_end b pos 2)
                | d # r2 \<Rightarrow>
                    if \<not> is_cont d then Inl (invalid_continuation b pos 2)
                    else prepend ((b - 224) * 4096 + (c - 128) * 64 + (d - 128))
                           (decode_from (pos + 3) r2)))
      else if b < 245 then
        (case bs of
           [] \<Rightarrow> Inl (unexpected_end b pos 1)
         | c # r \<Rightarrow>
             if \<not> is_cont c \<or> (if c < 144 then b = 240 else b = 244)
             then Inl (invalid_continuation b pos 1)
             else
               (case r of
                  [] \<Rightarrow> Inl (unexpected_end b pos 2)
                | d # r2 \<Rightarrow>
                    if \<not> is_cont d then Inl (invalid_continuation b pos 2)
                    else
                      (case r2 of
                         [] \<Rightarrow> Inl (unexpected_end b pos 3)
                       | e # r3 \<Rightarrow>
                           if \<not> is_cont e then Inl (invalid_continuation b pos 3)
                           else prepend ((b - 240) * 262144 + (c - 128) * 4096
                                         + (d - 128) * 64 + (e - 128))
                                  (decode_from (pos + 4) r3))))
      else Inl (invalid_start b pos))"

definition utf8_decode :: "bytes \<Rightarrow> exn + pystr" where
  "utf8_decode data = decode_from 0 (map of_char data)"

text \<open>
  \<^verbatim>\<open>str.encode('utf-8')\<close>: one to four bytes for a code point; a surrogate
  (\<open>0xD800\<close> to \<open>0xDFFF\<close>) cannot be encoded and raises, the error covering the run of
  surrogates that starts there.
\<close>

definition is_surrogate :: "nat \<Rightarrow> bool" where
  "is_surrogate c = (55296 \<le> c \<and> c < 57344)"

definition encode_point :: "nat \<Rightarrow> nat list" where
  "encode_point c =
     (if c < 128 then [c]
      else if c < 2048 then [192 + c div 64, 128 + c mod 64]
      else if c < 65536 then [224 + c div 4096, 128 + (c div 64) mod 64, 128 + c mod 64]
      else [240 + c div 262144, 128 + (c div 4096) mod 64, 128 + (c div 64) mod 64, 128 + c mod 64])"

fun encode_from :: "nat \<Rightarrow> pystr \<Rightarrow> exn + bytes" where
  "encode_from pos [] = Inr []"
| "encode_from pos (c # cs) =
     (if is_surrogate c
      then Inl (UnicodeEncodeError c pos (pos + 1 + length (takeWhile is_surrogate cs)))
      else (case encode_from (pos + 1) cs of
              Inl e \<Rightarrow> Inl e
            | Inr bs \<Rightarrow> Inr (map char_of (encode_point c) @ bs)))"

definition utf8_encode :: "pystr \<Rightarrow> exn + bytes" where
  "utf8_encode s = encode_from 0 s"

subsection \<open>\<^verbatim>\<open>json.dumps\<close> on a dictionary of strings\<close>

text \<open>
  The handler serialises two dictionaries, each with two \<^verbatim>\<open>str\<close> keys and \<^verbatim>\<open>str\<close>
  values. With the default options \<^verbatim>\<open>json.dumps\<close> writes the items in insertion
  order as \<^verbatim>\<open>"key": "value"\<close>, joined by a comma and a space, between braces. A string
  is written between double quotes; the backslash, the double quote and the control
  characters with a short form are escaped, a printable ASCII character stands for
  itself, and every other code point is written \<^verbatim>\<open>\uXXXX\<close>, as a surrogate pair
  above \<open>0xFFFF\<close>. The output is ASCII.
\<close>

definition escape_char :: "nat \<Rightarrow> pystr" where
  "escape_char c =
     (if c = 92 then [92, 92]
      else if c = 34 then [92, 34]
      else if c = 8 then [92, 98]
      else if c = 12 then [92, 102]
      else if c = 10 then [92, 110]
      else if c = 13 then [92, 114]
      else if c = 9 then [92, 116]
      else if 32 \<le> c \<and> c \<le> 126 then [c]
      else if c < 65536 then [92, 117] @ hex4 c
      else [92, 117] @ hex4 (55296 + ((c - 65536) div 1024) mod 1024)
           @ [92, 117] @ hex4 (56320 + (c - 65536) mod 1024))"

definition encode_basestring_ascii :: "pystr \<Rightarrow> pystr" where
  "encode_basestring_ascii s = [34] @ concat (map escape_char s) @ [34]"

fun join_items :: "pystr list \<Rightarrow> pystr" where
  "join_items [] = []"
| "join_items [x] = x"
| "join_items (x # y # ys) = x @ ascii '', '' @ join_items (y # ys)"

definition json_dumps :: "(pystr \<times> pystr) list \<Rightarrow> pystr" where
  "json_dumps items =
     ascii ''{''
     @ join_items (map (\<lambda>(k, v). encode_basestring_ascii k @ ascii '': '' @ encode_basestring_ascii v) items)
     @ ascii ''}''"

section \<open>The request handler\<close>

text \<open>
  What the handler writes is kept as a list of events rather than as bytes: the status
  line, a header line, the blank line that ends the header block, and a block of body
  bytes. \<^verbatim>\<open>send_response\<close> and \<^verbatim>\<open>send_header\<close> of the server class append to a
  header buffer; \<^verbatim>\<open>end_headers\<close> moves the buffer to \<^verbatim>\<open>wfile\<close>.
  \<^verbatim>\<open>send_response\<close> also adds the \<^verbatim>\<open>Server\<close> and \<^verbatim>\<open>Date\<close> headers of the server
  class (and writes a line to the access log, which is not modelled). Writing to
  \<^verbatim>\<open>wfile\<close> is taken to succeed: a client that has dropped the connection is
  outside the model.
\<close>

datatype out =
    Status nat
  | Header string string
  | EndHeaders
  | Data bytes

text \<open>The arguments of \<^verbatim>\<open>urllib.request.Request(url, headers=headers)\<close>.\<close>

record request =
  full_url :: json
  req_headers :: "(string \<times> string) list"

text \<open>
  The world outside the handler. \<open>json_loads\<close> is \<^verbatim>\<open>json.loads\<close> on a \<^verbatim>\<open>bytes\<close>
  object: a value, or the exception it raises. \<open>urlopen\<close> stands for lines 26 to 28 up
  to \<^verbatim>\<open>response.read()\<close>: building the request object, \<^verbatim>\<open>urlopen\<close> and reading
  the body; it gives the bytes of the body, or the exception raised on the way, or
  \<open>None\<close> when the call never returns (no timeout is set). \<open>version_string\<close> and
  \<open>date_time_string\<close> are the values of the \<^verbatim>\<open>Server\<close> and \<^verbatim>\<open>Date\<close> headers.
\<close>

record world =
  json_loads :: "bytes \<Rightarrow> exn + json"
  urlopen :: "request \<Rightarrow> (exn + bytes) option"
  version_string :: string
  date_time_string :: string

text \<open>
  The handler object: the request (\<open>path\<close>, \<open>headers\<close>, \<open>rfile\<close>), the output
  (\<open>headers_buffer\<close>, \<open>wfile\<close>), and the list of the outbound requests made so far.
\<close>

record handler =
  path :: string
  headers :: "string \<Rightarrow> pystr option"
  rfile :: rfile
  headers_buffer :: "out list"
  wfile :: "out list"
  outbound :: "request list"

definition send_header :: "string \<Rightarrow> string \<Rightarrow> handler \<Rightarrow> handler" where
  "send_header keyword val h = h\<lparr>headers_buffer := headers_buffer h @ [Header keyword val]\<rparr>"

definition send_response :: "world \<Rightarrow> nat \<Rightarrow> handler \<Rightarrow> handler" where
  "send_response w code h =
     send_header ''Date'' (date_time_string w)
       (send_header ''Server'' (version_string w)
          (h\<lparr>headers_buffer := headers_buffer h @ [Status code]\<rparr>))"

definition end_headers :: "handler \<Rightarrow> handler" where
  "end_headers h = h\<lparr>wfile := wfile h @ headers_buffer h @ [EndHeaders], headers_buffer := []\<rparr>"

definition wfile_write :: "bytes \<Rightarrow> handler \<Rightarrow> handler" where
  "wfile_write b h = h\<lparr>wfile := wfile h @ [Data b]\<rparr>"

text \<open>Lines 48 to 51.\<close>

definition send_cors_headers :: "handler \<Rightarrow> handler" where
  "send_cors_headers h =
     send_header ''Access-Control-Allow-Headers'' ''Content-Type''
       (send_header ''Access-Control-Allow-Methods'' ''GET, POST, OPTIONS''
          (send_header ''Access-Control-Allow-Origin'' ''*'' h))"

text \<open>Lines 8 to 11.\<close>

definition do_OPTIONS :: "world \<Rightarrow> handler \<Rightarrow> handler" where
  "do_OPTIONS w h = end_headers (send_cors_headers (send_response w 200 h))"

text \<open>
  Lines 53 to 62. The method runs inside an \<^verbatim>\<open>except\<close> clause, so an exception
  raised here would leave \<^verbatim>\<open>do_POST\<close>: the result is a sum.
\<close>

definition send_error_response :: "world \<Rightarrow> pystr \<Rightarrow> handler \<Rightarrow> exn + handler" where
  "send_error_response w error_message h =
     (let h1 = end_headers
                 (send_header ''Content-Type'' ''application/json''
                    (send_cors_headers (send_response w 500 h)));
          response_data = json_dumps [(ascii ''status'', ascii ''error''),
                                      (ascii ''message'', error_message)]
      in case utf8_encode response_data of
           Inl e \<Rightarrow> Inl e
         | Inr b \<Rightarrow> Inr (wfile_write b h1))"

text \<open>Lines 21 to 23: the dictionary \<^verbatim>\<open>headers\<close> of the outbound request.\<close>

definition outbound_headers :: "(string \<times> string) list" where
  "outbound_headers =
     [(''User-Agent'',
       ''Mozilla/5.0 (Windows NT 10.0; Win64; x64) AppleWebKit/537.36 (KHTML, like Gecko) Chrome/91.0.4472.124 Safari/537.36'')]"

text \<open>
  Lines 16 and 17: the length is taken from the header and that many bytes are asked of
  \<^verbatim>\<open>rfile\<close>. The result is the data read and the handler with the rest of the stream,
  or the exception raised, or \<open>None\<close> when the read never returns.
\<close>

definition read_body :: "handler \<Rightarrow> (exn + bytes \<times> handler) option" where
  "read_body h =
     (case py_int (headers h ''Content-Length'') of
        Inl e \<Rightarrow> Some (Inl e)
      | Inr content_length \<Rightarrow>
          (case rfile_read content_length (rfile h) of
             None \<Rightarrow> None
           | Some (Inl e) \<Rightarrow> Some (Inl e)
           | Some (Inr (post_data, f)) \<Rightarrow> Some (Inr (post_data, h\<lparr>rfile := f\<rparr>))))"

text \<open>
  Lines 15 to 41, the body of the \<^verbatim>\<open>try\<close>. It ends normally with the new handler
  state (\<open>Inr\<close>), or with an exception and the state reached when it was raised
  (\<open>Inl\<close>), or it never ends (\<open>None\<close>).
\<close>

definition try_body :: "world \<Rightarrow> handler \<Rightarrow> (exn \<times> handler + handler) option" where
  "try_body w h =
     (case read_body h of
        None \<Rightarrow> None
      | Some (Inl e) \<Rightarrow> Some (Inl (e, h))
      | Some (Inr (post_data, h1)) \<Rightarrow>
          (case json_loads w post_data of
             Inl e \<Rightarrow> Some (Inl (e, h1))
           | Inr doc \<Rightarrow>
               (case getitem doc (ascii ''url'') of
                  Inl e \<Rightarrow> Some (Inl (e, h1))
                | Inr url \<Rightarrow>
                    (let req = \<lparr>full_url = url, req_headers = outbound_headers\<rparr>;
                         h2 = h1\<lparr>outbound := outbound h1 @ [req]\<rparr>
                     in case urlopen w req of
                          None \<Rightarrow> None
                        | Some (Inl e) \<Rightarrow> Some (Inl (e, h2))
                        | Some (Inr body) \<Rightarrow>
                            (case utf8_decode body of
                               Inl e \<Rightarrow> Some (Inl (e, h2))
                             | Inr website_content \<Rightarrow>
                                 (let h3 = end_headers
                                             (send_header ''Content-Type'' ''application/json''
                                                (send_cors_headers (send_response w 200 h2)));
                                      response_data =
                                        json_dumps [(ascii ''content'', website_content),
                                                    (ascii ''status'', ascii ''success'')]
                                  in case utf8_encode response_data of
                                       Inl e \<Rightarrow> Some (Inl (e, h3))
                                     | Inr b \<Rightarrow> Some (Inr (wfile_write b h3))))))))"

text \<open>
  Lines 13 to 46: the \<^verbatim>\<open>try\<close> with its two \<^verbatim>\<open>except\<close> clauses. \<open>Inl\<close> is an
  exception that leaves \<^verbatim>\<open>do_POST\<close>.
\<close>

definition do_POST :: "world \<Rightarrow> handler \<Rightarrow> (exn + handler) option" where
  "do_POST w h =
     (case try_body w h of
        None \<Rightarrow> None
      | Some (Inr h') \<Rightarrow> Some (Inr h')
      | Some (Inl (e, h')) \<Rightarrow>
          Some (if is_URLError e then send_error_response w (str_exn e) h'
                else send_error_response w (str_exn e) h'))"

section \<open>Responses and example requests\<close>

text \<open>
  One complete relay response on \<^verbatim>\<open>wfile\<close>: the status line, the two headers of the
  server class, the three cross-origin headers, the content type, the end of the header
  block and one block of body bytes, the serialised dictionary \<open>items\<close>.
\<close>

definition relay_response :: "world \<Rightarrow> nat \<Rightarrow> (pystr \<times> pystr) list \<Rightarrow> out list" where
  "relay_response w code items =
     [Status code,
      Header ''Server'' (version_string w),
      Header ''Date'' (date_time_string w),
      Header ''Access-Control-Allow-Origin'' ''*'',
      Header ''Access-Control-Allow-Methods'' ''GET, POST, OPTIONS'',
      Header ''Access-Control-Allow-Headers'' ''Content-Type'',
      Header ''Content-Type'' ''application/json'',
      EndHeaders,
      Data (map char_of (json_dumps items))]"

text \<open>The values of all header lines with a given name, in the order written.\<close>

definition header_values :: "string \<Rightarrow> out list \<Rightarrow> string list" where
  "header_values name evs =
     concat (map (\<lambda>ev. case ev of Header k v \<Rightarrow> (if k = name then [v] else []) | _ \<Rightarrow> []) evs)"

definition cors_once :: "out list \<Rightarrow> bool" where
  "cors_once evs =
     (header_values ''Access-Control-Allow-Origin'' evs = [''*'']
      \<and> header_values ''Access-Control-Allow-Methods'' evs = [''GET, POST, OPTIONS'']
      \<and> header_values ''Access-Control-Allow-Headers'' evs = [''Content-Type''])"

fun is_dict :: "json \<Rightarrow> bool" where
  "is_dict (JDict _) = True"
| "is_dict _ = False"

text \<open>
  Valid UTF-8, written from the grammar of RFC 3629 and not from the decoder: one byte
  below \<open>0x80\<close>; a lead byte \<open>0xC2\<close> to \<open>0xDF\<close> and one tail byte; a lead byte
  \<open>0xE0\<close> to \<open>0xEF\<close> and two tail bytes, the first at least \<open>0xA0\<close> after \<open>0xE0\<close>
  and at most \<open>0x9F\<close> after \<open>0xED\<close>; a lead byte \<open>0xF0\<close> to \<open>0xF4\<close> and three tail
  bytes, the first at least \<open>0x90\<close> after \<open>0xF0\<close> and at most \<open>0x8F\<close> after
  \<open>0xF4\<close>. A tail byte is \<open>0x80\<close> to \<open>0xBF\<close>.
\<close>

definition utf8_tail :: "nat \<Rightarrow> bool" where
  "utf8_tail c = (128 \<le> c \<and> c \<le> 191)"

fun well_formed :: "nat list \<Rightarrow> bool" where
  "well_formed [] = True"
| "well_formed (b # bs) =
     (if b \<le> 127 then well_formed bs
      else if 194 \<le> b \<and> b \<le> 223 then
        (case bs of c # r \<Rightarrow> utf8_tail c \<and> well_formed r | _ \<Rightarrow> False)
      else if b = 224 then
        (case bs of c # d # r \<Rightarrow> 160 \<le> c \<and> c \<le> 191 \<and> utf8_tail d \<and> well_formed r | _ \<Rightarrow> False)
      else if (225 \<le> b \<and> b \<le> 236) \<or> (238 \<le> b \<and> b \<le> 239) then
        (case bs of c # d # r \<Rightarrow> utf8_tail c \<and> utf8_tail d \<and> well_formed r | _ \<Rightarrow> False)
      else if b = 237 then
        (case bs of c # d # r \<Rightarrow> 128 \<le> c \<and> c \<le> 159 \<and> utf8_tail d \<and> well_formed r | _ \<Rightarrow> False)
      else if b = 240 then
        (case bs of c # d # e # r \<Rightarrow>
           144 \<le> c \<and> c \<le> 191 \<and> utf8_tail d \<and> utf8_tail e \<and> well_formed r | _ \<Rightarrow> False)
      else if 241 \<le> b \<and> b \<le> 243 then
        (case bs of c # d # e # r \<Rightarrow>
           utf8_tail c \<and> utf8_tail d \<and> utf8_tail e \<and> well_formed r | _ \<Rightarrow> False)
      else if b = 244 then
        (case bs of c # d # e # r \<Rightarrow>
           128 \<le> c \<and> c \<le> 143 \<and> utf8_tail d \<and> utf8_tail e \<and> well_formed r | _ \<Rightarrow> False)
      else False)"

definition valid_utf8 :: "bytes \<Rightarrow> bool" where
  "valid_utf8 data = well_formed (map of_char data)"

text \<open>The decoder succeeds on the bytes \<open>bs\<close> found at offset \<open>pos\<close>.\<close>

definition decodes :: "nat \<Rightarrow> nat list \<Rightarrow> bool" where
  "decodes pos bs = (\<exists>t. decode_from pos bs = Inr t)"

text \<open>
  An example world, for running the handler: \<^verbatim>\<open>json.loads\<close> on the few request bodies
  used below, with the result Python gives for them, and a network in which
  \<^verbatim>\<open>http://example.test/hello\<close> serves the text \<^verbatim>\<open>Hello, world!\<close>,
  \<^verbatim>\<open>http://example.test/logo.png\<close> serves bytes that are not UTF-8, and every other
  address refuses the connection. \<open>url_body u\<close> is the request body
  \<^verbatim>\<open>{"url": "u"}\<close>.
\<close>

definition url_body :: "string \<Rightarrow> bytes" where
  "url_body u =
     ''{'' @ [char_of (34::nat)] @ ''url'' @ [char_of (34::nat)] @ '': ''
     @ [char_of (34::nat)] @ u @ [char_of (34::nat)] @ ''}''"

definition url_doc :: "string \<Rightarrow> json" where
  "url_doc u = JDict [(ascii ''url'', JStr (ascii u))]"

definition example_world :: world where
  "example_world =
     \<lparr>json_loads = (\<lambda>b.
          if b = url_body ''http://example.test/hello'' then Inr (url_doc ''http://example.test/hello'')
          else if b = url_body ''http://example.test/logo.png''
            then Inr (url_doc ''http://example.test/logo.png'')
          else if b = url_body ''http://127.0.0.1:1'' then Inr (url_doc ''http://127.0.0.1:1'')
          else if b = ''{}'' then Inr (JDict [])
          else if b = ''[1]'' then Inr (JList [JInt 1])
          else Inl (JSONDecodeError (ascii ''Expecting value'') 1 1 0)),
      urlopen = (\<lambda>req.
          if full_url req = JStr (ascii ''http://example.test/hello'') then Some (Inr ''Hello, world!'')
          else if full_url req = JStr (ascii ''http://example.test/logo.png'')
            then Some (Inr (map char_of [137, 80, 78, 71 :: nat]))
          else Some (Inl (URLError (ascii ''[Errno 111] Connection refused'')))),
      version_string = ''BaseHTTP/0.6 Python/3.12.0'',
      date_time_string = ''Thu, 01 Jan 2026 00:00:00 GMT''\<rparr>"

text \<open>
  A handler at the start of a request: the \<^verbatim>\<open>Content-Length\<close> header (or none), the
  bytes of the body still to come, whether the client closes its side after them, and
  nothing written yet.
\<close>

definition incoming :: "pystr option \<Rightarrow> bytes \<Rightarrow> bool \<Rightarrow> handler" where
  "incoming cl body closed =
     \<lparr>path = ''/'', headers = (\<lambda>k. if k = ''Content-Length'' then cl else None),
      rfile = \<lparr>pending = body, eof = closed\<rparr>, headers_buffer = [], wfile = [], outbound = []\<rparr>"

definition hello_post :: handler where
  "hello_post = incoming (Some (ascii ''36'')) (url_body ''http://example.test/hello'') False"

definition unbounded_post :: handler where
  "unbounded_post = incoming (Some (ascii ''-1'')) (url_body ''http://example.test/hello'') True"

definition missing_length_post :: handler where
  "missing_length_post = incoming None (url_body ''http://example.test/hello'') False"

definition closed_port_post :: handler where
  "closed_port_post = incoming (Some (ascii ''29'')) (url_body ''http://127.0.0.1:1'') False"

definition not_json_post :: handler where
  "not_json_post = incoming (Some (ascii ''8'')) ''not json'' False"

definition empty_object_post :: handler where
  "empty_object_post = incoming (Some (ascii ''2'')) ''{}'' False"

definition array_post :: handler where
  "array_post = incoming (Some (ascii ''3'')) ''[1]'' False"

definition logo_post :: handler where
  "logo_post = incoming (Some (ascii ''39'')) (url_body ''http://example.test/logo.png'') False"

section \<open>Auxiliary facts\<close>

lemmas eval_defs = incoming_def example_world_def url_body_def url_doc_def read_body_def py_int_def
  strip_def is_space_def parse_decimal_def is_digit_def rfile_read_def ascii_def

subsection \<open>The serialised response is ASCII, so encoding it cannot fail\<close>

lemma digit_char_ascii: "d < 16 \<Longrightarrow> digit_char d < 128"
  by (simp add: digit_char_def)

lemma hex4_ascii: "list_all (\<lambda>x. x < 128) (hex4 n)"
  by (simp add: hex4_def digit_char_ascii)

lemma escape_char_ascii: "list_all (\<lambda>x. x < 128) (escape_char c)"
  by (simp add: escape_char_def hex4_ascii)

lemma encode_basestring_ascii_ascii: "list_all (\<lambda>x. x < 128) (encode_basestring_ascii s)"
  by (induction s) (simp_all add: encode_basestring_ascii_def escape_char_ascii)

lemma join_items_ascii:
  "list_all (list_all (\<lambda>x. x < 128)) xs \<Longrightarrow> list_all (\<lambda>x. x < 128) (join_items xs)"
  by (induction xs rule: join_items.induct) (simp_all add: ascii_def)

lemma json_dumps_ascii: "list_all (\<lambda>x. x < 128) (json_dumps items)"
proof -
  have "list_all (list_all (\<lambda>x. x < 128))
          (map (\<lambda>(k, v). encode_basestring_ascii k @ ascii '': '' @ encode_basestring_ascii v) items)"
    by (induction items) (auto simp: encode_basestring_ascii_ascii ascii_def)
  then show ?thesis
    by (simp add: json_dumps_def join_items_ascii ascii_def)
qed

lemma encode_from_ascii: "list_all (\<lambda>x. x < 128) s \<Longrightarrow> encode_from pos s = Inr (map char_of s)"
  by (induction s arbitrary: pos) (simp_all add: is_surrogate_def encode_point_def)

lemma utf8_encode_json_dumps: "utf8_encode (json_dumps items) = Inr (map char_of (json_dumps items))"
  unfolding utf8_encode_def by (rule encode_from_ascii) (rule json_dumps_ascii)

subsection \<open>The decoder accepts exactly the valid UTF-8 byte strings\<close>

lemma prepend_Inr: "(\<exists>t. prepend c r = Inr t) = (\<exists>t. r = Inr t)"
  by (cases r) (simp_all add: prepend_def)

lemma decodes_Nil: "decodes pos []"
  by (simp add: decodes_def)

lemma decodes_1: "b < 128 \<Longrightarrow> decodes pos (b # bs) = decodes (pos + 1) bs"
  by (simp add: decodes_def prepend_Inr)

lemma decodes_bad: "128 \<le> b \<Longrightarrow> b < 194 \<or> 245 \<le> b \<Longrightarrow> \<not> decodes pos (b # bs)"
  by (auto simp: decodes_def)

lemma decodes_2:
  "194 \<le> b \<Longrightarrow> b < 224 \<Longrightarrow>
   decodes pos (b # bs) = (case bs of [] \<Rightarrow> False | c # r \<Rightarrow> is_cont c \<and> decodes (pos + 2) r)"
  by (simp add: decodes_def prepend_Inr split: list.splits)

lemma decodes_3:
  "224 \<le> b \<Longrightarrow> b < 240 \<Longrightarrow>
   decodes pos (b # bs) =
     (case bs of
        c # d # r \<Rightarrow> is_cont c \<and> \<not> (if c < 160 then b = 224 else b = 237) \<and> is_cont d
                      \<and> decodes (pos + 3) r
      | _ \<Rightarrow> False)"
  by (simp add: decodes_def prepend_Inr split: list.splits)

lemma decodes_4:
  "240 \<le> b \<Longrightarrow> b < 245 \<Longrightarrow>
   decodes pos (b # bs) =
     (case bs of
        c # d # e # r \<Rightarrow> is_cont c \<and> \<not> (if c < 144 then b = 240 else b = 244) \<and> is_cont d
                          \<and> is_cont e \<and> decodes (pos + 4) r
      | _ \<Rightarrow> False)"
  by (simp add: decodes_def prepend_Inr split: list.splits)

lemma decodes_well_formed: "decodes pos bs = well_formed bs"
proof (induction bs arbitrary: pos rule: length_induct)
  case (1 bs)
  then have IH: "\<And>ys p. length ys < length bs \<Longrightarrow> decodes p ys = well_formed ys"
    by blast
  show ?case
  proof (cases bs)
    case Nil
    then show ?thesis by (simp add: decodes_Nil)
  next
    case (Cons b r)
    consider "b < 128" | "128 \<le> b \<and> (b < 194 \<or> 245 \<le> b)" | "194 \<le> b \<and> b < 224"
      | "224 \<le> b \<and> b < 240" | "240 \<le> b \<and> b < 245"
      by linarith
    then show ?thesis
    proof cases
      case 1
      with IH[of r "pos + 1"] Cons show ?thesis
        by (simp add: decodes_1)
    next
      case 2
      then have "\<not> decodes pos (b # r)" by (intro decodes_bad) auto
      moreover from 2 have "\<not> well_formed (b # r)" by auto
      ultimately show ?thesis using Cons by simp
    next
      case 3
      show ?thesis
      proof (cases r)
        case Nil
        with 3 Cons show ?thesis by (simp add: decodes_2)
      next
        case (Cons c r2)
        with \<open>bs = b # r\<close> have "decodes (pos + 2) r2 = well_formed r2"
          by (intro IH) simp
        with 3 Cons \<open>bs = b # r\<close> show ?thesis
          by (simp add: decodes_2 is_cont_def utf8_tail_def) linarith
      qed
    next
      case 4
      show ?thesis
      proof (cases r)
        case Nil
        with 4 Cons show ?thesis by (simp add: decodes_3)
      next
        case c: (Cons c r2)
        show ?thesis
        proof (cases r2)
          case Nil
          with 4 c \<open>bs = b # r\<close> show ?thesis by (simp add: decodes_3)
        next
          case (Cons d r3)
          with c \<open>bs = b # r\<close> have "decodes (pos + 3) r3 = well_formed r3"
            by (intro IH) simp
          with 4 c Cons \<open>bs = b # r\<close> show ?thesis
            by (simp add: decodes_3 is_cont_def utf8_tail_def) linarith
        qed
      qed
    next
      case 5
      show ?thesis
      proof (cases r)
        case Nil
        with 5 Cons show ?thesis by (simp add: decodes_4)
      next
        case c: (Cons c r2)
        show ?thesis
        proof (cases r2)
          case Nil
          with 5 c \<open>bs = b # r\<close> show ?thesis by (simp add: decodes_4)
        next
          case d: (Cons d r3)
          show ?thesis
          proof (cases r3)
            case Nil
            with 5 c d \<open>bs = b # r\<close> show ?thesis by (simp add: decodes_4)
          next
            case (Cons e r4)
            with c d \<open>bs = b # r\<close> have "decodes (pos + 4) r4 = well_formed r4"
              by (intro IH) simp
            with 5 c d Cons \<open>bs = b # r\<close> show ?thesis
              by (simp add: decodes_4 is_cont_def utf8_tail_def) linarith
          qed
        qed
      qed
    qed
  qed
qed

lemma utf8_decode_valid: "(\<exists>t. utf8_decode data = Inr t) = valid_utf8 data"
  using decodes_well_formed[of 0 "map of_char data"]
  by (simp add: utf8_decode_def valid_utf8_def decodes_def)

lemma utf8_decode_invalid: "\<not> valid_utf8 data \<Longrightarrow> \<exists>e. utf8_decode data = Inl e"
  using utf8_decode_valid[of data] by (cases "utf8_decode data") auto

subsection \<open>What the methods write\<close>

lemma send_error_response_eq:
  "send_error_response w m h =
     Inr (h\<lparr>wfile := wfile h @ headers_buffer h
                @ relay_response w 500 [(ascii ''status'', ascii ''error''), (ascii ''message'', m)],
            headers_buffer := []\<rparr>)"
  by (simp add: send_error_response_def utf8_encode_json_dumps relay_response_def wfile_write_def
      end_headers_def send_header_def send_cors_headers_def send_response_def)

lemma do_OPTIONS_eq:
  "do_OPTIONS w h =
     h\<lparr>wfile := wfile h @ headers_buffer h
                @ [Status 200,
                   Header ''Server'' (version_string w),
                   Header ''Date'' (date_time_string w),
                   Header ''Access-Control-Allow-Origin'' ''*'',
                   Header ''Access-Control-Allow-Methods'' ''GET, POST, OPTIONS'',
                   Header ''Access-Control-Allow-Headers'' ''Content-Type'',
                   EndHeaders],
       headers_buffer := []\<rparr>"
  by (simp add: do_OPTIONS_def end_headers_def send_header_def send_cors_headers_def send_response_def)

lemma read_body_output:
  "read_body h = Some (Inr (d, hr)) \<Longrightarrow>
     wfile hr = wfile h \<and> headers_buffer hr = headers_buffer h \<and> outbound hr = outbound h"
  by (auto simp: read_body_def split: sum.splits option.splits prod.splits)

text \<open>An exception leaves the \<^verbatim>\<open>try\<close> before anything is written.\<close>

lemma try_body_raises:
  "try_body w h = Some (Inl (e, hr)) \<Longrightarrow> wfile hr = wfile h \<and> headers_buffer hr = headers_buffer h"
  by (auto simp: try_body_def read_body_def Let_def utf8_encode_json_dumps
      split: sum.splits option.splits prod.splits)

lemma try_body_returns:
  "try_body w h = Some (Inr h') \<Longrightarrow>
     \<exists>t. wfile h' = wfile h @ headers_buffer h
            @ relay_response w 200 [(ascii ''content'', t), (ascii ''status'', ascii ''success'')]
       \<and> headers_buffer h' = []"
  by (auto simp: try_body_def read_body_def Let_def utf8_encode_json_dumps relay_response_def
      wfile_write_def end_headers_def send_header_def send_cors_headers_def send_response_def
      split: sum.splits option.splits prod.splits)

lemma try_body_loads_fail:
  "read_body h = Some (Inr (d, hr)) \<Longrightarrow> json_loads w d = Inl e \<Longrightarrow> try_body w h = Some (Inl (e, hr))"
  by (simp add: try_body_def)

lemma try_body_getitem_fail:
  "read_body h = Some (Inr (d, hr)) \<Longrightarrow> json_loads w d = Inr doc
   \<Longrightarrow> getitem doc (ascii ''url'') = Inl e \<Longrightarrow> try_body w h = Some (Inl (e, hr))"
  by (simp add: try_body_def)

lemma try_body_decode_fail:
  "read_body h = Some (Inr (d, hr)) \<Longrightarrow> json_loads w d = Inr doc
   \<Longrightarrow> getitem doc (ascii ''url'') = Inr u
   \<Longrightarrow> urlopen w \<lparr>full_url = u, req_headers = outbound_headers\<rparr> = Some (Inr body)
   \<Longrightarrow> utf8_decode body = Inl e
   \<Longrightarrow> try_body w h
       = Some (Inl (e, hr\<lparr>outbound := outbound hr @ [\<lparr>full_url = u, req_headers = outbound_headers\<rparr>]\<rparr>))"
  by (simp add: try_body_def)

lemma try_body_read_fail: "read_body h = Some (Inl e) \<Longrightarrow> try_body w h = Some (Inl (e, h))"
  by (simp add: try_body_def)

lemma try_body_urlopen_fail:
  "read_body h = Some (Inr (d, hr)) \<Longrightarrow> json_loads w d = Inr doc
   \<Longrightarrow> getitem doc (ascii ''url'') = Inr u
   \<Longrightarrow> urlopen w \<lparr>full_url = u, req_headers = outbound_headers\<rparr> = Some (Inl e)
   \<Longrightarrow> try_body w h
       = Some (Inl (e, hr\<lparr>outbound := outbound hr @ [\<lparr>full_url = u, req_headers = outbound_headers\<rparr>]\<rparr>))"
  by (simp add: try_body_def)

text \<open>The exceptions of the \<^verbatim>\<open>try\<close> block are those of its five stages.\<close>

lemma try_body_raise_stages:
  assumes "try_body w h = Some (Inl (e, hr))"
  shows "read_body h = Some (Inl e)
         \<or> (\<exists>d hd. read_body h = Some (Inr (d, hd))
               \<and> (json_loads w d = Inl e
                  \<or> (\<exists>doc. json_loads w d = Inr doc
                        \<and> (getitem doc (ascii ''url'') = Inl e
                           \<or> (\<exists>u. getitem doc (ascii ''url'') = Inr u
                                 \<and> (urlopen w \<lparr>full_url = u, req_headers = outbound_headers\<rparr> = Some (Inl e)
                                    \<or> (\<exists>body. urlopen w \<lparr>full_url = u, req_headers = outbound_headers\<rparr>
                                                 = Some (Inr body)
                                          \<and> utf8_decode body = Inl e)))))))"
  using assms
  by (simp add: try_body_def Let_def utf8_encode_json_dumps
      split: sum.splits option.splits prod.splits)

lemma do_POST_raise:
  assumes "headers_buffer h = []" and "wfile h = []" and "try_body w h = Some (Inl (e, hr))"
  shows "do_POST w h =
           Some (Inr (hr\<lparr>wfile := relay_response w 500
                                     [(ascii ''status'', ascii ''error''), (ascii ''message'', str_exn e)],
                         headers_buffer := []\<rparr>))"
proof -
  from try_body_raises[OF assms(3)] assms(1,2) have "wfile hr = []" "headers_buffer hr = []"
    by simp_all
  then show ?thesis
    by (simp add: do_POST_def assms(3) send_error_response_eq)
qed

lemma do_POST_success:
  assumes "headers_buffer h = []" and "wfile h = []"
    and "read_body h = Some (Inr (post_data, hr))"
    and "json_loads w post_data = Inr doc"
    and "getitem doc (ascii ''url'') = Inr u"
    and "urlopen w \<lparr>full_url = u, req_headers = outbound_headers\<rparr> = Some (Inr body)"
    and "utf8_decode body = Inr t"
  shows "do_POST w h =
           Some (Inr (hr\<lparr>outbound := outbound hr @ [\<lparr>full_url = u, req_headers = outbound_headers\<rparr>],
                         wfile := relay_response w 200
                                    [(ascii ''content'', t), (ascii ''status'', ascii ''success'')],
                         headers_buffer := []\<rparr>))"
proof -
  from read_body_output[OF assms(3)] assms(1,2) have "wfile hr = []" "headers_buffer hr = []"
    by simp_all
  then show ?thesis
    using assms(3-7)
    by (simp add: do_POST_def try_body_def utf8_encode_json_dumps relay_response_def wfile_write_def
        end_headers_def send_header_def send_cors_headers_def send_response_def)
qed

text \<open>A POST that returns has written one relay response, and no exception leaves it.\<close>

lemma do_POST_shape:
  assumes "headers_buffer h = []" and "wfile h = []" and "do_POST w h = Some r"
  shows "\<exists>h' code items. r = Inr h' \<and> wfile h' = relay_response w code items"
proof (cases "try_body w h")
  case None
  with assms(3) show ?thesis by (simp add: do_POST_def)
next
  case (Some x)
  show ?thesis
  proof (cases x)
    case (Inl p)
    obtain e hr where "p = (e, hr)" by (cases p)
    with Some Inl have "try_body w h = Some (Inl (e, hr))" by simp
    from do_POST_raise[OF assms(1,2) this] assms(3) show ?thesis by auto
  next
    case (Inr h2)
    with Some have t: "try_body w h = Some (Inr h2)" by simp
    from try_body_returns[OF t] assms(1,2) obtain c where
      "wfile h2 = relay_response w 200 [(ascii ''content'', c), (ascii ''status'', ascii ''success'')]"
      by auto
    moreover from t assms(3) have "r = Inr h2" by (simp add: do_POST_def)
    ultimately show ?thesis by blast
  qed
qed

lemma cors_once_relay_response: "cors_once (relay_response w code items)"
  by (simp add: cors_once_def header_values_def relay_response_def)

lemma str_exn_decode_error_nonempty:
  "str_exn (JSONDecodeError m l c p) \<noteq> []" "str_exn (UnicodeDecodeError b s t r) \<noteq> []"
  by (simp_all add: ascii_def)

subsection \<open>The example requests, run\<close>

lemma hello_post_result:
  "do_POST example_world hello_post =
     Some (Inr (hello_post\<lparr>rfile := \<lparr>pending = [], eof = False\<rparr>,
                  outbound := [\<lparr>full_url = JStr (ascii ''http://example.test/hello''),
                                req_headers = outbound_headers\<rparr>],
                  wfile := relay_response example_world 200
                             [(ascii ''content'', ascii ''Hello, world!''), (ascii ''status'', ascii ''success'')],
                  headers_buffer := []\<rparr>))"
  by (subst do_POST_success [where post_data = "url_body ''http://example.test/hello''"
        and hr = "hello_post\<lparr>rfile := \<lparr>pending = [], eof = False\<rparr>\<rparr>"
        and doc = "url_doc ''http://example.test/hello''"
        and u = "JStr (ascii ''http://example.test/hello'')"
        and body = "''Hello, world!''" and t = "ascii ''Hello, world!''"])
     (simp_all add: hello_post_def eval_defs utf8_decode_def prepend_def)

lemma unbounded_post_result:
  "do_POST example_world unbounded_post =
     Some (Inr (unbounded_post\<lparr>rfile := \<lparr>pending = [], eof = True\<rparr>,
                  outbound := [\<lparr>full_url = JStr (ascii ''http://example.test/hello''),
                                req_headers = outbound_headers\<rparr>],
                  wfile := relay_response example_world 200
                             [(ascii ''content'', ascii ''Hello, world!''), (ascii ''status'', ascii ''success'')],
                  headers_buffer := []\<rparr>))"
  by (subst do_POST_success [where post_data = "url_body ''http://example.test/hello''"
        and hr = "unbounded_post\<lparr>rfile := \<lparr>pending = [], eof = True\<rparr>\<rparr>"
        and doc = "url_doc ''http://example.test/hello''"
        and u = "JStr (ascii ''http://example.test/hello'')"
        and body = "''Hello, world!''" and t = "ascii ''Hello, world!''"])
     (simp_all add: unbounded_post_def eval_defs utf8_decode_def prepend_def)

section \<open>The claims\<close>

text \<open>
  In the theorems below a request starts with nothing written: \<open>headers_buffer h = []\<close>
  and \<open>wfile h = []\<close>. \<open>read_body h = Some (Inr (post_data, hr))\<close> says that the length
  header was accepted and the read returned the bytes \<open>post_data\<close>.
\<close>

text \<open>
  C1. A POST whose body parses as a JSON object with \<^verbatim>\<open>url\<close> equal to \<open>u\<close>, where the
  fetch of \<open>u\<close> returns a body that decodes as the UTF-8 text \<open>t\<close>, is answered with
  exactly one response: status 200, the cross-origin headers, \<^verbatim>\<open>Content-Type:
  application/json\<close>, and the body \<^verbatim>\<open>json.dumps({'content': t, 'status': 'success'})\<close>.
\<close>

theorem post_success:
  assumes "headers_buffer h = []" and "wfile h = []"
    and "read_body h = Some (Inr (post_data, hr))"
    and "json_loads w post_data = Inr (JDict kvs)"
    and "map_of kvs (ascii ''url'') = Some u"
    and "urlopen w \<lparr>full_url = u, req_headers = outbound_headers\<rparr> = Some (Inr body)"
    and "utf8_decode body = Inr t"
  shows "\<exists>h'. do_POST w h = Some (Inr h')
           \<and> wfile h' = relay_response w 200 [(ascii ''content'', t), (ascii ''status'', ascii ''success'')]"
proof -
  have "getitem (JDict kvs) (ascii ''url'') = Inr u"
    using assms(5) by simp
  from do_POST_success[OF assms(1-4) this assms(6,7)] show ?thesis
    by simp
qed

theorem post_success_witness:
  "\<exists>h'. do_POST example_world hello_post = Some (Inr h')
      \<and> wfile h' = relay_response example_world 200
                      [(ascii ''content'', ascii ''Hello, world!''), (ascii ''status'', ascii ''success'')]"
  by (rule post_success [where post_data = "url_body ''http://example.test/hello''"
        and hr = "hello_post\<lparr>rfile := \<lparr>pending = [], eof = False\<rparr>\<rparr>"
        and kvs = "[(ascii ''url'', JStr (ascii ''http://example.test/hello''))]"
        and body = "''Hello, world!''"])
     (simp_all add: hello_post_def eval_defs utf8_decode_def prepend_def)

text \<open>
  C2. Whatever exception \<open>e\<close> leaves the \<^verbatim>\<open>try\<close> block of the POST handler, at
  whatever stage, \<^verbatim>\<open>do_POST\<close> returns normally and has written exactly one response:
  status 500 with the body \<^verbatim>\<open>json.dumps({'status': 'error', 'message': str(e)})\<close>. The
  response depends on \<open>e\<close> through \<^verbatim>\<open>str(e)\<close> only.
\<close>

theorem post_failure_uniform:
  assumes "headers_buffer h = []" and "wfile h = []"
    and "try_body w h = Some (Inl (e, hr))"
  shows "\<exists>h'. do_POST w h = Some (Inr h')
           \<and> wfile h' = relay_response w 500 [(ascii ''status'', ascii ''error''), (ascii ''message'', str_exn e)]"
  using do_POST_raise[OF assms] by simp

theorem post_failure_uniform_witness:
  "\<exists>h'. do_POST example_world closed_port_post = Some (Inr h')
      \<and> wfile h' = relay_response example_world 500
                      [(ascii ''status'', ascii ''error''),
                       (ascii ''message'', str_exn (URLError (ascii ''[Errno 111] Connection refused'')))]"
  by (rule post_failure_uniform) (simp_all add: closed_port_post_def try_body_def eval_defs)

text \<open>
  C3. The response to OPTIONS and the response of every POST that returns (the success
  and the error response alike) hold each of the three cross-origin headers exactly
  once, with the value the handler sets.
\<close>

theorem cors_exactly_once:
  assumes "headers_buffer h = []" and "wfile h = []"
  shows "cors_once (wfile (do_OPTIONS w h))
         \<and> (\<forall>r. do_POST w h = Some r \<longrightarrow> (\<exists>h'. r = Inr h' \<and> cors_once (wfile h')))"
proof
  show "cors_once (wfile (do_OPTIONS w h))"
    by (simp add: do_OPTIONS_eq assms cors_once_def header_values_def)
next
  show "\<forall>r. do_POST w h = Some r \<longrightarrow> (\<exists>h'. r = Inr h' \<and> cors_once (wfile h'))"
  proof (intro allI impI)
    fix r assume "do_POST w h = Some r"
    from do_POST_shape[OF assms this] show "\<exists>h'. r = Inr h' \<and> cors_once (wfile h')"
      by (auto simp: cors_once_relay_response)
  qed
qed

theorem cors_exactly_once_witness:
  "cors_once (wfile (do_OPTIONS example_world hello_post))
   \<and> (\<exists>h'. do_POST example_world hello_post = Some (Inr h') \<and> cors_once (wfile h'))"
proof -
  have fresh: "headers_buffer hello_post = []" "wfile hello_post = []"
    by (simp_all add: hello_post_def incoming_def)
  from cors_exactly_once[OF fresh, of example_world] hello_post_result
  show ?thesis by auto
qed

text \<open>
  C4, as stated, fails: with the header \<^verbatim>\<open>Content-Length: -1\<close>, which is no valid
  length, \<^verbatim>\<open>int\<close> returns \<open>-1\<close>, \<^verbatim>\<open>rfile.read(-1)\<close> reads the whole stream (36 bytes
  here) up to its end, and the request is answered with the success response.
\<close>

theorem content_length_counterexample:
  "headers unbounded_post ''Content-Length'' = Some (ascii ''-1'')
   \<and> py_int (headers unbounded_post ''Content-Length'') = Inr (- 1)
   \<and> length (pending (rfile unbounded_post)) = 36
   \<and> map_option (map_sum id (length \<circ> fst)) (read_body unbounded_post) = Some (Inr 36)
   \<and> map_option (map_sum id wfile) (do_POST example_world unbounded_post)
       = Some (Inr (relay_response example_world 200
                      [(ascii ''content'', ascii ''Hello, world!''), (ascii ''status'', ascii ''success'')]))"
  by (simp add: unbounded_post_result) (simp add: unbounded_post_def eval_defs)

text \<open>
  C4, amended. When \<^verbatim>\<open>int\<close> accepts the \<^verbatim>\<open>Content-Length\<close> header as \<open>n\<close> with
  \<open>0 \<le> n\<close> and the request stream holds at least \<open>n\<close> bytes, the handler reads exactly
  the first \<open>n\<close> bytes and leaves the rest in the stream. When \<^verbatim>\<open>int\<close> raises on the
  header, the request is answered with the generic 500 error response; and on a missing
  header \<^verbatim>\<open>int\<close> raises.
\<close>

theorem content_length_read:
  "(py_int (headers h ''Content-Length'') = Inr n \<and> 0 \<le> n \<and> nat n \<le> length (pending (rfile h))
      \<longrightarrow> read_body h = Some (Inr (take (nat n) (pending (rfile h)),
                                     h\<lparr>rfile := (rfile h)\<lparr>pending := drop (nat n) (pending (rfile h))\<rparr>\<rparr>)))
   \<and> (headers_buffer h = [] \<and> wfile h = [] \<and> py_int (headers h ''Content-Length'') = Inl e
      \<longrightarrow> (\<exists>h'. do_POST w h = Some (Inr h')
             \<and> wfile h' = relay_response w 500
                             [(ascii ''status'', ascii ''error''), (ascii ''message'', str_exn e)]))
   \<and> (headers h ''Content-Length'' = None
      \<longrightarrow> (\<exists>m. py_int (headers h ''Content-Length'') = Inl (TypeError m)))"
proof (intro conjI impI)
  assume "py_int (headers h ''Content-Length'') = Inr n \<and> 0 \<le> n \<and> nat n \<le> length (pending (rfile h))"
  then show "read_body h = Some (Inr (take (nat n) (pending (rfile h)),
                                     h\<lparr>rfile := (rfile h)\<lparr>pending := drop (nat n) (pending (rfile h))\<rparr>\<rparr>))"
    by (simp add: read_body_def rfile_read_def)
next
  assume a: "headers_buffer h = [] \<and> wfile h = [] \<and> py_int (headers h ''Content-Length'') = Inl e"
  then have "try_body w h = Some (Inl (e, h))"
    by (simp add: try_body_def read_body_def)
  from do_POST_raise[OF _ _ this] a
  show "\<exists>h'. do_POST w h = Some (Inr h')
             \<and> wfile h' = relay_response w 500
                             [(ascii ''status'', ascii ''error''), (ascii ''message'', str_exn e)]"
    by simp
next
  assume "headers h ''Content-Length'' = None"
  then show "\<exists>m. py_int (headers h ''Content-Length'') = Inl (TypeError m)"
    by (simp add: py_int_def)
qed

theorem content_length_read_witness:
  "read_body hello_post
     = Some (Inr (take 36 (pending (rfile hello_post)),
                  hello_post\<lparr>rfile := (rfile hello_post)\<lparr>pending := drop 36 (pending (rfile hello_post))\<rparr>\<rparr>))
   \<and> (\<exists>m h'. py_int (headers missing_length_post ''Content-Length'') = Inl (TypeError m)
         \<and> do_POST example_world missing_length_post = Some (Inr h')
         \<and> wfile h' = relay_response example_world 500
                         [(ascii ''status'', ascii ''error''), (ascii ''message'', str_exn (TypeError m))])"
proof -
  have a: "py_int (headers hello_post ''Content-Length'') = Inr 36 \<and> (0::int) \<le> 36
           \<and> nat 36 \<le> length (pending (rfile hello_post))"
    by (simp add: hello_post_def eval_defs)
  have b: "headers missing_length_post ''Content-Length'' = None"
    "headers_buffer missing_length_post = []" "wfile missing_length_post = []"
    by (simp_all add: missing_length_post_def incoming_def)
  from content_length_read[of missing_length_post _ _ example_world] b
  obtain m where m: "py_int (headers missing_length_post ''Content-Length'') = Inl (TypeError m)"
    by blast
  from content_length_read[of hello_post 36] a
  have "read_body hello_post
     = Some (Inr (take 36 (pending (rfile hello_post)),
                  hello_post\<lparr>rfile := (rfile hello_post)\<lparr>pending := drop 36 (pending (rfile hello_post))\<rparr>\<rparr>))"
    by simp
  moreover from content_length_read[of missing_length_post _ "TypeError m" example_world] b m
  have "\<exists>h'. do_POST example_world missing_length_post = Some (Inr h')
         \<and> wfile h' = relay_response example_world 500
                         [(ascii ''status'', ascii ''error''), (ascii ''message'', str_exn (TypeError m))]"
    by blast
  ultimately show ?thesis using m by blast
qed

text \<open>
  C5. \<^verbatim>\<open>json.loads\<close> signals a body that is not valid JSON with \<^verbatim>\<open>JSONDecodeError\<close>,
  or with \<^verbatim>\<open>UnicodeDecodeError\<close> when the bytes are no text at all. In both cases the
  POST is answered with status 500, \<^verbatim>\<open>status\<close> equal to \<^verbatim>\<open>error\<close> and the message
  \<^verbatim>\<open>str(e)\<close>, which is not empty.
\<close>

theorem invalid_json_error:
  assumes "headers_buffer h = []" and "wfile h = []"
    and "read_body h = Some (Inr (post_data, hr))"
    and "json_loads w post_data = Inl e"
    and "(\<exists>m l c p. e = JSONDecodeError m l c p) \<or> (\<exists>b s t r. e = UnicodeDecodeError b s t r)"
  shows "\<exists>h'. do_POST w h = Some (Inr h')
           \<and> wfile h' = relay_response w 500 [(ascii ''status'', ascii ''error''), (ascii ''message'', str_exn e)]
           \<and> str_exn e \<noteq> []"
proof -
  from assms(5) have "str_exn e \<noteq> []"
    using str_exn_decode_error_nonempty by blast
  with do_POST_raise[OF assms(1,2) try_body_loads_fail[OF assms(3,4)]] show ?thesis
    by simp
qed

theorem invalid_json_error_witness:
  "\<exists>h'. do_POST example_world not_json_post = Some (Inr h')
      \<and> wfile h' = relay_response example_world 500
                      [(ascii ''status'', ascii ''error''),
                       (ascii ''message'', str_exn (JSONDecodeError (ascii ''Expecting value'') 1 1 0))]
      \<and> str_exn (JSONDecodeError (ascii ''Expecting value'') 1 1 0) \<noteq> []"
  by (rule invalid_json_error [where post_data = "''not json''"
        and hr = "not_json_post\<lparr>rfile := \<lparr>pending = [], eof = False\<rparr>\<rparr>"])
     (simp_all add: not_json_post_def eval_defs)

text \<open>
  C6. A POST whose body parses as a JSON object without the key \<^verbatim>\<open>url\<close> is answered
  with status 500 and \<^verbatim>\<open>status\<close> equal to \<^verbatim>\<open>error\<close>; the message is the text of the
  \<^verbatim>\<open>KeyError\<close>, the key in quotes.
\<close>

theorem missing_url_error:
  assumes "headers_buffer h = []" and "wfile h = []"
    and "read_body h = Some (Inr (post_data, hr))"
    and "json_loads w post_data = Inr (JDict kvs)"
    and "map_of kvs (ascii ''url'') = None"
  shows "\<exists>h'. do_POST w h = Some (Inr h')
           \<and> wfile h' = relay_response w 500
                           [(ascii ''status'', ascii ''error''), (ascii ''message'', [39] @ ascii ''url'' @ [39])]"
proof -
  have "getitem (JDict kvs) (ascii ''url'') = Inl (KeyError (ascii ''url''))"
    using assms(5) by simp
  from do_POST_raise[OF assms(1,2) try_body_getitem_fail[OF assms(3,4) this]]
  show ?thesis
    by (simp add: py_repr_def repr_char_def printable_def ascii_def)
qed

theorem missing_url_error_witness:
  "\<exists>h'. do_POST example_world empty_object_post = Some (Inr h')
      \<and> wfile h' = relay_response example_world 500
                      [(ascii ''status'', ascii ''error''), (ascii ''message'', [39] @ ascii ''url'' @ [39])]"
  by (rule missing_url_error [where post_data = "''{}''" and kvs = "[]"
        and hr = "empty_object_post\<lparr>rfile := \<lparr>pending = [], eof = False\<rparr>\<rparr>"])
     (simp_all add: empty_object_post_def eval_defs)

text \<open>
  C7. \<^verbatim>\<open>do_OPTIONS\<close>, whatever the path and the rest of the request, writes the status
  line 200, the headers of the server class and the three cross-origin headers, ends
  the header block and writes no body. Nothing else of the handler changes: the request
  stream is not read and no outbound request is made.
\<close>

theorem options_response:
  "do_OPTIONS w h =
     h\<lparr>wfile := wfile h @ headers_buffer h
                @ [Status 200,
                   Header ''Server'' (version_string w),
                   Header ''Date'' (date_time_string w),
                   Header ''Access-Control-Allow-Origin'' ''*'',
                   Header ''Access-Control-Allow-Methods'' ''GET, POST, OPTIONS'',
                   Header ''Access-Control-Allow-Headers'' ''Content-Type'',
                   EndHeaders],
       headers_buffer := []\<rparr>"
  by (rule do_OPTIONS_eq)

text \<open>
  C8. When the fetch returns a body that is not valid UTF-8, the decoder raises, and the
  POST is answered with the 500 error response carrying the text of that exception and
  with nothing else: no other decoding is tried and nothing of the fetched body is
  written.
\<close>

theorem undecodable_body_error:
  assumes "headers_buffer h = []" and "wfile h = []"
    and "read_body h = Some (Inr (post_data, hr))"
    and "json_loads w post_data = Inr doc"
    and "getitem doc (ascii ''url'') = Inr u"
    and "urlopen w \<lparr>full_url = u, req_headers = outbound_headers\<rparr> = Some (Inr body)"
    and "\<not> valid_utf8 body"
  shows "\<exists>e h'. utf8_decode body = Inl e
           \<and> do_POST w h = Some (Inr h')
           \<and> wfile h' = relay_response w 500 [(ascii ''status'', ascii ''error''), (ascii ''message'', str_exn e)]"
proof -
  from utf8_decode_invalid[OF assms(7)] obtain e where e: "utf8_decode body = Inl e" ..
  from do_POST_raise[OF assms(1,2) try_body_decode_fail[OF assms(3-6) e]] e
  show ?thesis by simp
qed

theorem undecodable_body_error_witness:
  "\<exists>e h'. utf8_decode (map char_of [137, 80, 78, 71 :: nat]) = Inl e
      \<and> do_POST example_world logo_post = Some (Inr h')
      \<and> wfile h' = relay_response example_world 500
                      [(ascii ''status'', ascii ''error''), (ascii ''message'', str_exn e)]"
  by (rule undecodable_body_error [where post_data = "url_body ''http://example.test/logo.png''"
        and hr = "logo_post\<lparr>rfile := \<lparr>pending = [], eof = False\<rparr>\<rparr>"
        and doc = "url_doc ''http://example.test/logo.png''"
        and u = "JStr (ascii ''http://example.test/logo.png'')"])
     (simp_all add: logo_post_def eval_defs valid_utf8_def)

text \<open>
  C9. A POST that extracts a \<^verbatim>\<open>url\<close> \<open>u\<close> and returns has made exactly one more
  outbound request, for \<open>u\<close>, whose header dictionary has the single entry
  \<^verbatim>\<open>User-Agent\<close> with the fixed browser string; nothing of the inbound request enters it.
\<close>

theorem outbound_request_header:
  assumes "read_body h = Some (Inr (post_data, hr))"
    and "json_loads w post_data = Inr doc"
    and "getitem doc (ascii ''url'') = Inr u"
    and "do_POST w h = Some r"
  shows "\<exists>h'. r = Inr h'
           \<and> outbound h' = outbound h @
               [\<lparr>full_url = u,
                 req_headers = [(''User-Agent'',
                   ''Mozilla/5.0 (Windows NT 10.0; Win64; x64) AppleWebKit/537.36 (KHTML, like Gecko) Chrome/91.0.4472.124 Safari/537.36'')]\<rparr>]"
  using assms read_body_output[OF assms(1)]
  by (auto simp: do_POST_def try_body_def send_error_response_eq utf8_encode_json_dumps Let_def
      outbound_headers_def wfile_write_def end_headers_def send_header_def send_cors_headers_def
      send_response_def
      split: option.splits sum.splits)

theorem outbound_request_header_witness:
  "\<exists>h'. do_POST example_world hello_post = Some (Inr h')
      \<and> outbound h' = outbound hello_post @
          [\<lparr>full_url = JStr (ascii ''http://example.test/hello''),
            req_headers = [(''User-Agent'',
              ''Mozilla/5.0 (Windows NT 10.0; Win64; x64) AppleWebKit/537.36 (KHTML, like Gecko) Chrome/91.0.4472.124 Safari/537.36'')]\<rparr>]"
proof -
  have r: "read_body hello_post
             = Some (Inr (url_body ''http://example.test/hello'',
                          hello_post\<lparr>rfile := \<lparr>pending = [], eof = False\<rparr>\<rparr>))"
    by (simp add: hello_post_def eval_defs)
  have j: "json_loads example_world (url_body ''http://example.test/hello'')
             = Inr (url_doc ''http://example.test/hello'')"
    by (simp add: eval_defs)
  have g: "getitem (url_doc ''http://example.test/hello'') (ascii ''url'')
             = Inr (JStr (ascii ''http://example.test/hello''))"
    by (simp add: url_doc_def)
  from outbound_request_header[OF r j g hello_post_result] show ?thesis
    by (simp add: hello_post_result)
qed

text \<open>
  C10. A POST whose body parses as JSON but not as an object (a list, a string, a
  number, a boolean, null) raises \<^verbatim>\<open>TypeError\<close> at the subscript; it is answered with
  the 500 error response carrying the text of that error, no exception leaves the
  handler, and no outbound request is made.
\<close>

theorem non_object_error:
  assumes "headers_buffer h = []" and "wfile h = []"
    and "read_body h = Some (Inr (post_data, hr))"
    and "json_loads w post_data = Inr doc"
    and "\<not> is_dict doc"
  shows "\<exists>m h'. getitem doc (ascii ''url'') = Inl (TypeError m)
           \<and> do_POST w h = Some (Inr h')
           \<and> wfile h' = relay_response w 500 [(ascii ''status'', ascii ''error''), (ascii ''message'', m)]
           \<and> outbound h' = outbound h"
proof -
  from assms(5) obtain m where m: "getitem doc (ascii ''url'') = Inl (TypeError m)"
    by (cases doc) (simp_all add: not_subscriptable_def)
  from do_POST_raise[OF assms(1,2) try_body_getitem_fail[OF assms(3,4) m]] read_body_output[OF assms(3)] m
  show ?thesis by simp
qed

theorem non_object_error_witness:
  "\<exists>m h'. getitem (JList [JInt 1]) (ascii ''url'') = Inl (TypeError m)
      \<and> do_POST example_world array_post = Some (Inr h')
      \<and> wfile h' = relay_response example_world 500 [(ascii ''status'', ascii ''error''), (ascii ''message'', m)]
      \<and> outbound h' = outbound array_post"
  by (rule non_object_error [where post_data = "''[1]''"
        and hr = "array_post\<lparr>rfile := \<lparr>pending = [], eof = False\<rparr>\<rparr>"])
     (simp_all add: array_post_def eval_defs)

end
